theory Spec2Isabelle
  imports Complex_Main "HOL-Library.Multiset"
begin

section \<open>Inventory comparison between agencies: a model of \<^verbatim>\<open>streamlit_app.py\<close>\<close>

text \<open>
  The program reads one inventory file per agency, finds the five columns it needs
  whatever the exact spelling of their headers (\<^verbatim>\<open>charger_inventaire\<close>), joins two
  inventories on the article code (\<^verbatim>\<open>comparer_deux_agences\<close>) and writes one workbook
  per agency with one sheet per other agency (the handler of the button
  that generates the reports).

  Python functions are modelled by HOL functions of the same name. What belongs to
  pandas, numpy or xlsxwriter is modelled from the documented behaviour of the call the
  program makes, and each such definition says so.
\<close>

subsection \<open>Python strings\<close>

text \<open>
  A Python \<^verbatim>\<open>str\<close> is a sequence of code points. The files are decoded with
  \<^verbatim>\<open>encoding="latin1"\<close>, which maps the byte \<open>n\<close> to the code point \<open>n\<close>, so a
  \<^typ>\<open>string\<close> stands for a \<^verbatim>\<open>str\<close> over the code points 0 to 255: the
  \<^typ>\<open>char\<close> with code \<open>n\<close> is the code point \<open>n\<close>. Code points above 255 (possible in
  a spreadsheet or in a typed agency name) are outside the model.
\<close>

definition nbsp :: char where
  \<comment> \<open>the non-breaking space, \<^verbatim>\<open>"\xa0"\<close>\<close>
  "nbsp = CHR 0xA0"

definition e_acute :: char where
  \<comment> \<open>the letter e with an acute accent, U+00E9\<close>
  "e_acute = CHR 0xE9"

definition E_acute :: char where
  \<comment> \<open>the capital letter E with an acute accent, U+00C9\<close>
  "E_acute = CHR 0xC9"

definition py_isspace :: "char \<Rightarrow> bool" where
  \<comment> \<open>\<^verbatim>\<open>str.isspace\<close> on one code point below 256: TAB, LF, VT, FF, CR, the four
      information separators, the space, NEL and the non-breaking space\<close>
  "py_isspace c = (of_char c \<in> {9, 10, 11, 12, 13, 28, 29, 30, 31, 32, 133, 160 :: nat})"

definition py_strip :: "string \<Rightarrow> string" where
  \<comment> \<open>\<^verbatim>\<open>s.strip()\<close>\<close>
  "py_strip s = rev (dropWhile py_isspace (rev (dropWhile py_isspace s)))"

definition lower_char :: "char \<Rightarrow> char" where
  \<comment> \<open>the lower-case mapping of one code point below 256: A to Z, and the accented
      capitals U+00C0 to U+00DE but the multiplication sign U+00D7, move up by 32\<close>
  "lower_char c =
     (let n = of_char c :: nat
      in if (65 \<le> n \<and> n \<le> 90) \<or> (192 \<le> n \<and> n \<le> 214) \<or> (216 \<le> n \<and> n \<le> 222)
         then char_of (n + 32) else c)"

definition py_lower :: "string \<Rightarrow> string" where
  \<comment> \<open>\<^verbatim>\<open>s.lower()\<close>\<close>
  "py_lower s = map lower_char s"

definition replace_char :: "char \<Rightarrow> string \<Rightarrow> string \<Rightarrow> string" where
  \<comment> \<open>\<^verbatim>\<open>s.replace(c, r)\<close> for a pattern \<open>c\<close> of one character, which is what
      every call of the program has\<close>
  "replace_char c r s = concat (map (\<lambda>x. if x = c then r else [x]) s)"

fun startswith :: "string \<Rightarrow> string \<Rightarrow> bool" where
  \<comment> \<open>\<^verbatim>\<open>s.startswith(p)\<close>\<close>
  "startswith s [] = True"
| "startswith [] (p # ps) = False"
| "startswith (c # s) (p # ps) = (c = p \<and> startswith s ps)"

fun py_in :: "string \<Rightarrow> string \<Rightarrow> bool" where
  \<comment> \<open>\<^verbatim>\<open>sub in s\<close>: \<open>sub\<close> occurs in \<open>s\<close> as a contiguous substring\<close>
  "py_in sub [] = (sub = [])"
| "py_in sub (c # s) = (startswith (c # s) sub \<or> py_in sub s)"

subsection \<open>Finding the columns (lines 48 to 80 of \<^verbatim>\<open>charger_inventaire\<close>)\<close>

datatype logical_col = Code_article | Designation | Stock_theorique | Stock_physique | Ecart

definition required_logical_cols :: "logical_col list" where
  "required_logical_cols = [Code_article, Designation, Stock_theorique, Stock_physique, Ecart]"

text \<open>The dictionary \<^verbatim>\<open>col_map\<close>: from a logical column to the header found for it.\<close>

type_synonym col_map = "logical_col \<rightharpoonup> string"

definition clean_column :: "string \<Rightarrow> string" where
  \<comment> \<open>line 49: \<^verbatim>\<open>c.replace("\xa0", " ").strip()\<close>\<close>
  "clean_column c = py_strip (replace_char nbsp '' '' c)"

definition col_clean_of :: "string \<Rightarrow> string" where
  \<comment> \<open>line 63: \<^verbatim>\<open>col_clean = col.lower().replace("\xa0", " ")\<close>\<close>
  "col_clean_of col = replace_char nbsp '' '' (py_lower col)"

definition pat_designation :: string where
  "pat_designation = ''d'' @ [e_acute] @ ''signation''"

definition pat_stock_theorique :: string where
  "pat_stock_theorique = ''stock th'' @ [e_acute] @ ''orique''"

definition detect_step :: "col_map \<Rightarrow> string \<Rightarrow> col_map" where
  \<comment> \<open>lines 63 to 73: the body of the loop over the headers\<close>
  "detect_step col_map col =
     (let col_clean = col_clean_of col in
      if py_in ''code article'' col_clean \<and> col_map Code_article = None
        then col_map(Code_article \<mapsto> col)
      else if py_in pat_designation col_clean \<and> col_map Designation = None
        then col_map(Designation \<mapsto> col)
      else if py_in pat_stock_theorique col_clean \<and> col_map Stock_theorique = None
        then col_map(Stock_theorique \<mapsto> col)
      else if py_in ''stock physique'' col_clean \<and> col_map Stock_physique = None
        then col_map(Stock_physique \<mapsto> col)
      else if startswith col_clean ''ecart'' \<and> col_map Ecart = None
        then col_map(Ecart \<mapsto> col)
      else col_map)"

definition detect_columns :: "string list \<Rightarrow> col_map" where
  \<comment> \<open>lines 61 to 73: the loop, from the empty dictionary, in the order of the columns\<close>
  "detect_columns cols = foldl detect_step Map.empty cols"

datatype erreur =
    Colonnes_manquantes "logical_col list" "string list"
      \<comment> \<open>the \<^verbatim>\<open>ValueError\<close> of line 77, with the two lists its message prints\<close>
  | Length_mismatch
      \<comment> \<open>the \<^verbatim>\<open>ValueError\<close> of pandas when line 92 names five columns and the frame has more\<close>
  | Key_error string
      \<comment> \<open>a \<^verbatim>\<open>KeyError\<close>: no column of that name\<close>
  | Invalid_worksheet_name string
  | Duplicate_worksheet_name string
  | Lecture_impossible
      \<comment> \<open>any exception of \<^verbatim>\<open>pd.read_csv\<close> or \<^verbatim>\<open>pd.read_excel\<close>\<close>

definition resolve_columns :: "string list \<Rightarrow> erreur + col_map" where
  \<comment> \<open>lines 61 to 80, on the cleaned headers \<^verbatim>\<open>df.columns\<close>\<close>
  "resolve_columns cols =
     (let col_map = detect_columns cols;
          missing = filter (\<lambda>c. col_map c = None) required_logical_cols
      in if missing \<noteq> [] then Inl (Colonnes_manquantes missing cols) else Inr col_map)"

text \<open>
  The rule the chain of \<^verbatim>\<open>if\<close>/\<^verbatim>\<open>elif\<close> is meant to implement, stated on its own: each
  logical column has a pattern, and a header goes to the first column, in the fixed order,
  whose pattern it matches and which has no header yet.
\<close>

fun pattern_matches :: "logical_col \<Rightarrow> string \<Rightarrow> bool" where
  "pattern_matches Code_article col_clean = py_in ''code article'' col_clean"
| "pattern_matches Designation col_clean = py_in pat_designation col_clean"
| "pattern_matches Stock_theorique col_clean = py_in pat_stock_theorique col_clean"
| "pattern_matches Stock_physique col_clean = py_in ''stock physique'' col_clean"
| "pattern_matches Ecart col_clean = startswith col_clean ''ecart''"

definition first_unfilled_match :: "col_map \<Rightarrow> string \<Rightarrow> logical_col option" where
  "first_unfilled_match col_map col =
     find (\<lambda>f. pattern_matches f (col_clean_of col) \<and> col_map f = None) required_logical_cols"

definition detect_step_spec :: "col_map \<Rightarrow> string \<Rightarrow> col_map" where
  "detect_step_spec col_map col =
     (case first_unfilled_match col_map col of
        None \<Rightarrow> col_map
      | Some f \<Rightarrow> col_map(f \<mapsto> col))"

subsection \<open>Numbers\<close>

text \<open>
  A numeric column of pandas holds binary floating-point numbers, or integers when every
  value is one. The model keeps the value a cell denotes: a rational, or one of the two
  infinities; the missing value \<^verbatim>\<open>NaN\<close> is \<^const>\<open>None\<close>. Rounding to 53 bits and the
  overflow of large values are not modelled.
\<close>

datatype number = Minus_inf | Fin rat | Plus_inf

instantiation number :: linorder
begin

fun less_eq_number :: "number \<Rightarrow> number \<Rightarrow> bool" where
  "less_eq_number Minus_inf y = True"
| "less_eq_number (Fin x) Minus_inf = False"
| "less_eq_number (Fin x) (Fin y) = (x \<le> y)"
| "less_eq_number (Fin x) Plus_inf = True"
| "less_eq_number Plus_inf Plus_inf = True"
| "less_eq_number Plus_inf y = False"

definition less_number :: "number \<Rightarrow> number \<Rightarrow> bool" where
  "less_number x y = (x \<le> y \<and> \<not> y \<le> x)"

instance
proof
  fix x y z :: number
  show "x < y \<longleftrightarrow> x \<le> y \<and> \<not> y \<le> x"
    by (simp add: less_number_def)
  show "x \<le> x"
    by (cases x) simp_all
  show "x \<le> y \<Longrightarrow> y \<le> z \<Longrightarrow> x \<le> z"
    by (cases x; cases y; cases z) simp_all
  show "x \<le> y \<Longrightarrow> y \<le> x \<Longrightarrow> x = y"
    by (cases x; cases y) simp_all
  show "x \<le> y \<or> y \<le> x"
    by (cases x; cases y) auto
qed

end

fun num_neg :: "number \<Rightarrow> number" where
  "num_neg Minus_inf = Plus_inf"
| "num_neg (Fin x) = Fin (- x)"
| "num_neg Plus_inf = Minus_inf"

fun num_abs :: "number \<Rightarrow> number" where
  "num_abs (Fin x) = Fin \<bar>x\<bar>"
| "num_abs y = Plus_inf"

fun num_add :: "number \<Rightarrow> number \<Rightarrow> number option" where
  \<comment> \<open>the sum of two numbers; infinity minus infinity is \<^verbatim>\<open>NaN\<close>\<close>
  "num_add (Fin x) (Fin y) = Some (Fin (x + y))"
| "num_add Plus_inf Minus_inf = None"
| "num_add Minus_inf Plus_inf = None"
| "num_add Plus_inf y = Some Plus_inf"
| "num_add x Plus_inf = Some Plus_inf"
| "num_add Minus_inf y = Some Minus_inf"
| "num_add x Minus_inf = Some Minus_inf"

definition nan_add :: "number option \<Rightarrow> number option \<Rightarrow> number option" where
  \<comment> \<open>\<^verbatim>\<open>a + b\<close> on two cells of numeric columns\<close>
  "nan_add a b =
     (case a of None \<Rightarrow> None | Some x \<Rightarrow> (case b of None \<Rightarrow> None | Some y \<Rightarrow> num_add x y))"

definition nan_sub :: "number option \<Rightarrow> number option \<Rightarrow> number option" where
  \<comment> \<open>\<^verbatim>\<open>a - b\<close> on two cells of numeric columns\<close>
  "nan_sub a b =
     (case a of None \<Rightarrow> None
      | Some x \<Rightarrow> (case b of None \<Rightarrow> None | Some y \<Rightarrow> num_add x (num_neg y)))"

definition nan_abs :: "number option \<Rightarrow> number option" where
  \<comment> \<open>\<^verbatim>\<open>s.abs()\<close> on one cell\<close>
  "nan_abs a = map_option num_abs a"

subsection \<open>Text to number: \<^verbatim>\<open>pd.to_numeric(..., errors="coerce")\<close>\<close>

text \<open>
  A model of the pandas function on one text cell. The texts it reads as a number are: an
  optional sign, decimal digits with an optional fractional part after a dot (at least
  one digit in all), an optional exponent (\<open>e\<close> or \<open>E\<close>, an optional sign, digits),
  with ASCII white space allowed before and after; and \<open>inf\<close> or \<open>infinity\<close> with an
  optional sign, in any letter case. Every other text, \<open>nan\<close> and the empty text
  included, gives \<^verbatim>\<open>NaN\<close> under \<^verbatim>\<open>errors="coerce"\<close>.
\<close>

definition is_digit :: "char \<Rightarrow> bool" where
  "is_digit c = (48 \<le> (of_char c :: nat) \<and> (of_char c :: nat) \<le> 57)"

definition digit_value :: "char \<Rightarrow> nat" where
  "digit_value c = of_char c - 48"

definition nat_of_digits :: "string \<Rightarrow> nat" where
  "nat_of_digits ds = foldl (\<lambda>a c. 10 * a + digit_value c) 0 ds"

definition c_isspace :: "char \<Rightarrow> bool" where
  "c_isspace c = (of_char c \<in> {9, 10, 11, 12, 13, 32 :: nat})"

fun split_sign :: "string \<Rightarrow> bool \<times> string" where
  "split_sign [] = (False, [])"
| "split_sign (c # s) =
     (if c = CHR ''-'' then (True, s) else if c = CHR ''+'' then (False, s) else (False, c # s))"

definition parse_exponent :: "string \<Rightarrow> int option" where
  "parse_exponent s =
     (case s of
        [] \<Rightarrow> Some 0
      | c # r \<Rightarrow>
          if c = CHR ''e'' \<or> c = CHR ''E'' then
            (let (neg, ds) = split_sign r in
             if ds \<noteq> [] \<and> list_all is_digit ds
             then Some (if neg then - int (nat_of_digits ds) else int (nat_of_digits ds))
             else None)
          else None)"

definition parse_decimal :: "string \<Rightarrow> rat option" where
  "parse_decimal s =
     (let (neg, s1) = split_sign s;
          ip = takeWhile is_digit s1;
          s2 = dropWhile is_digit s1;
          (fp, s3) = (case s2 of
                        [] \<Rightarrow> ([], [])
                      | c # r \<Rightarrow> if c = CHR ''.'' then (takeWhile is_digit r, dropWhile is_digit r)
                                 else ([], s2))
      in if ip = [] \<and> fp = [] then None
         else (case parse_exponent s3 of
                 None \<Rightarrow> None
               | Some e \<Rightarrow>
                   (let mant = of_nat (nat_of_digits (ip @ fp)) / 10 ^ length fp :: rat;
                        v = (if 0 \<le> e then mant * 10 ^ nat e else mant / 10 ^ nat (- e))
                    in Some (if neg then - v else v))))"

definition parse_infinity :: "string \<Rightarrow> number option" where
  "parse_infinity s =
     (let (neg, w) = split_sign (py_lower s)
      in if w = ''inf'' \<or> w = ''infinity'' then Some (if neg then Minus_inf else Plus_inf)
         else None)"

definition to_numeric :: "string \<Rightarrow> number option" where
  "to_numeric s =
     (case parse_decimal (rev (dropWhile c_isspace (rev (dropWhile c_isspace s)))) of
        Some v \<Rightarrow> Some (Fin v)
      | None \<Rightarrow> parse_infinity s)"

subsection \<open>The frame read from a file\<close>

text \<open>
  What \<^verbatim>\<open>pd.read_csv\<close> or \<^verbatim>\<open>pd.read_excel\<close> returns: the headers, and the rows, each
  with one cell per header. A cell is missing (\<^verbatim>\<open>NaN\<close>), an integer, or a text; a
  floating-point cell enters as the text \<^verbatim>\<open>str\<close> prints for it, which is all the program
  asks of it.
\<close>

datatype cell = NaN_cell | Int_cell int | Str_cell string

record dataframe =
  df_columns :: "string list"
  df_rows :: "cell list list"

fun str_nat :: "nat \<Rightarrow> string" where
  \<comment> \<open>the decimal digits of a natural number\<close>
  "str_nat n =
     (if n < 10 then [char_of (48 + n)] else str_nat (n div 10) @ [char_of (48 + n mod 10)])"

declare str_nat.simps [simp del]

definition str_int :: "int \<Rightarrow> string" where
  \<comment> \<open>\<^verbatim>\<open>str(i)\<close> for an integer\<close>
  "str_int i = (if i < 0 then CHR ''-'' # str_nat (nat (- i)) else str_nat (nat i))"

definition astype_str :: "cell \<Rightarrow> string" where
  \<comment> \<open>\<^verbatim>\<open>.astype(str)\<close> on one cell; a missing value prints as \<open>nan\<close>\<close>
  "astype_str v = (case v of NaN_cell \<Rightarrow> ''nan'' | Int_cell i \<Rightarrow> str_int i | Str_cell s \<Rightarrow> s)"

subsection \<open>\<^verbatim>\<open>charger_inventaire\<close> (lines 33 to 115)\<close>

definition conversion_numerique :: "cell \<Rightarrow> number option" where
  \<comment> \<open>lines 102 to 109, on one cell of one of the three numeric columns\<close>
  "conversion_numerique v =
     to_numeric
       (replace_char CHR '','' ''.''
         (replace_char CHR '' '' []
           (replace_char nbsp [] (astype_str v))))"

definition positions :: "string list \<Rightarrow> string \<Rightarrow> nat list" where
  \<comment> \<open>the columns a label selects: every column of that name, as pandas does when a
      label occurs more than once\<close>
  "positions cols label = filter (\<lambda>i. cols ! i = label) [0..<length cols]"

text \<open>One row of the normalised inventory the function returns.\<close>

record article =
  code_article :: string
  designation :: cell
  stock_theorique :: "number option"
  stock_physique :: "number option"
  ecart :: "number option"

definition normaliser_ligne :: "nat list \<Rightarrow> cell list \<Rightarrow> article" where
  \<comment> \<open>lines 82 to 113 on one row that line 112 keeps: \<open>sel\<close> lists the positions of the
      five selected columns\<close>
  "normaliser_ligne sel r =
     \<lparr>code_article = py_strip (astype_str (r ! (sel ! 0))),
      designation = r ! (sel ! 1),
      stock_theorique = conversion_numerique (r ! (sel ! 2)),
      stock_physique = conversion_numerique (r ! (sel ! 3)),
      ecart = conversion_numerique (r ! (sel ! 4))\<rparr>"

definition charger_inventaire :: "dataframe \<Rightarrow> erreur + article list" where
  \<comment> \<open>lines 48 to 115, from the frame the reader of lines 43 to 46 returned. Line 92 raises
      when the five labels select more than five columns; line 112 drops the rows whose
      code is missing.\<close>
  "charger_inventaire df =
     (let columns = map clean_column (df_columns df) in
      case resolve_columns columns of
        Inl e \<Rightarrow> Inl e
      | Inr col_map \<Rightarrow>
          (case those (map col_map required_logical_cols) of
             None \<Rightarrow> Inl (Key_error [])
           | Some labels \<Rightarrow>
               (let sel = concat (map (positions columns) labels) in
                if length sel \<noteq> 5 then Inl Length_mismatch
                else Inr (map (normaliser_ligne sel)
                           (filter (\<lambda>r. r ! (sel ! 0) \<noteq> NaN_cell) (df_rows df))))))"

subsection \<open>\<^verbatim>\<open>comparer_deux_agences\<close> (lines 118 to 168)\<close>

text \<open>
  The frames of this function have columns named after the agencies, so a row is kept as
  pandas keeps it: the list of its columns, each a name and a value, in the order of the
  frame.
\<close>

datatype valeur = Texte string | Cellule cell | Nombre "number option"

type_synonym ligne = "(string \<times> valeur) list"

definition col_num :: "ligne \<Rightarrow> string \<Rightarrow> number option" where
  \<comment> \<open>\<^verbatim>\<open>res[c]\<close> in one row, for a numeric column \<open>c\<close> of the frame\<close>
  "col_num r c = (case map_of r c of Some (Nombre x) \<Rightarrow> x | _ \<Rightarrow> None)"

fun set_col :: "string \<Rightarrow> valeur \<Rightarrow> ligne \<Rightarrow> ligne" where
  \<comment> \<open>\<^verbatim>\<open>res[c] = v\<close> in one row: a column of that name is replaced where it stands, a new
      name is added as the last column\<close>
  "set_col c v [] = [(c, v)]"
| "set_col c v ((k, w) # r) = (if k = c then (c, v) # r else (k, w) # set_col c v r)"

definition col_agence_comparee :: string where
  "col_agence_comparee = ''Agence compar'' @ [e_acute] @ ''e''"

definition col_designation :: string where
  "col_designation = ''D'' @ [e_acute] @ ''signation''"

definition col_stock_theorique :: string where
  "col_stock_theorique = ''Stock th'' @ [e_acute] @ ''orique''"

definition merge_inner :: "article list \<Rightarrow> article list \<Rightarrow> (article \<times> number option) list" where
  \<comment> \<open>lines 142 to 146, \<^verbatim>\<open>a.merge(b[["Code article", "Ecart_b"]], on="Code article",
      how="inner")\<close>, as pandas documents the inner join: the rows of \<open>a\<close> in their order, each
      once for every row of \<open>b\<close> with the same code, in the order of \<open>b\<close>\<close>
  "merge_inner a b =
     concat (map (\<lambda>ra. map (\<lambda>rb. (ra, ecart rb))
                         (filter (\<lambda>rb. code_article rb = code_article ra) b)) a)"

definition ligne_res :: "string \<Rightarrow> string \<Rightarrow> article \<times> number option \<Rightarrow> ligne" where
  \<comment> \<open>lines 148 to 163 on one row of \<^verbatim>\<open>merged\<close>\<close>
  "ligne_res nom_a nom_b m =
     (let res0 =
            [(''Agence'', Texte nom_a),
             (col_agence_comparee, Texte nom_b),
             (''Code article'', Texte (code_article (fst m))),
             (col_designation, Cellule (designation (fst m))),
             (col_stock_theorique, Nombre (stock_theorique (fst m))),
             (''Stock physique'', Nombre (stock_physique (fst m))),
             (''Ecart_'' @ nom_a, Nombre (ecart (fst m))),
             (''Ecart_'' @ nom_b, Nombre (snd m))];
          res1 = set_col ''Ecart_des_2_agences''
                   (Nombre (nan_sub (col_num res0 (''Ecart_'' @ nom_b))
                                    (col_num res0 (''Ecart_'' @ nom_a)))) res0;
          res2 = set_col ''Somme_ecarts''
                   (Nombre (nan_add (col_num res1 (''Ecart_'' @ nom_a))
                                    (col_num res1 (''Ecart_'' @ nom_b)))) res1
      in res2)"

text \<open>
  Line 166 sorts with the default \<^verbatim>\<open>kind="quicksort"\<close>, which pandas hands to
  \<^verbatim>\<open>numpy.argsort\<close>. The algorithm behind it is not part of the program, so it is a
  parameter \<open>argsort\<close>: from a list of numbers (none of them \<^verbatim>\<open>NaN\<close>) to the list of
  positions that sorts it in ascending order. What numpy promises of it is
  \<open>argsort_ok\<close>; it promises no order between equal keys.
\<close>

type_synonym argsort = "number list \<Rightarrow> nat list"

definition argsort_ok :: "argsort \<Rightarrow> bool" where
  "argsort_ok argsort =
     (\<forall>xs. mset (argsort xs) = mset [0..<length xs] \<and> sorted (map (\<lambda>i. xs ! i) (argsort xs)))"

definition nargsort_desc :: "argsort \<Rightarrow> number option list \<Rightarrow> nat list" where
  \<comment> \<open>\<^verbatim>\<open>nargsort(items, kind, ascending=False, na_position="last")\<close> of pandas: the positions
      of the values that are not \<^verbatim>\<open>NaN\<close> are reversed, sorted in ascending order of their
      values and reversed again; the positions of the \<^verbatim>\<open>NaN\<close> follow, in their order\<close>
  "nargsort_desc argsort items =
     (let idx = [0..<length items];
          non_nan_idx = rev (filter (\<lambda>i. items ! i \<noteq> None) idx);
          non_nans = List.map_filter (\<lambda>i. items ! i) non_nan_idx;
          nan_idx = filter (\<lambda>i. items ! i = None) idx;
          indexer = rev (map (\<lambda>j. non_nan_idx ! j) (argsort non_nans))
      in indexer @ nan_idx)"

definition cle_tri :: "ligne \<Rightarrow> number option" where
  \<comment> \<open>the sort key of line 166: the absolute value of \<^verbatim>\<open>Somme_ecarts\<close>\<close>
  "cle_tri r = nan_abs (col_num r ''Somme_ecarts'')"

definition sort_values_somme :: "argsort \<Rightarrow> ligne list \<Rightarrow> ligne list" where
  \<comment> \<open>line 166\<close>
  "sort_values_somme argsort res = map (\<lambda>i. res ! i) (nargsort_desc argsort (map cle_tri res))"

definition comparer_deux_agences ::
    "argsort \<Rightarrow> string \<Rightarrow> article list \<Rightarrow> string \<Rightarrow> article list \<Rightarrow> erreur + ligne list" where
  \<comment> \<open>When the two names are equal both frames have a column of the same name: the merge
      renames both with a suffix and line 156 raises \<^verbatim>\<open>KeyError\<close>.\<close>
  "comparer_deux_agences argsort nom_a df_a nom_b df_b =
     (if nom_a = nom_b then Inl (Key_error (''Ecart_'' @ nom_a))
      else (let merged = merge_inner df_a df_b;
                res = map (ligne_res nom_a nom_b) merged
            in Inr (sort_values_somme argsort res)))"

text \<open>Two sorters that meet \<open>argsort_ok\<close>: one keeps equal keys in order, one reverses them.\<close>

definition argsort_stable :: argsort where
  "argsort_stable xs = sort_key (\<lambda>i. xs ! i) [0..<length xs]"


text \<open>
  The words of the claim about the join: the four columns a row of the result takes from
  the reference, and the same four values in an article of the reference.
\<close>

definition partie_reference :: "ligne \<Rightarrow> valeur option \<times> valeur option \<times> valeur option \<times> valeur option" where
  "partie_reference r =
     (map_of r ''Code article'', map_of r col_designation, map_of r col_stock_theorique,
      map_of r ''Stock physique'')"

definition partie_article :: "article \<Rightarrow> valeur option \<times> valeur option \<times> valeur option \<times> valeur option" where
  "partie_article a =
     (Some (Texte (code_article a)), Some (Cellule (designation a)),
      Some (Nombre (stock_theorique a)), Some (Nombre (stock_physique a)))"

subsection \<open>The workbook (pandas \<^verbatim>\<open>ExcelWriter\<close> on xlsxwriter)\<close>

text \<open>
  A worksheet is its name and the frames written to it, the oldest first (the cells of a
  later frame replace those of an earlier one). A workbook is the list of its worksheets
  in the order of their creation.
\<close>

type_synonym feuille = "string \<times> ligne list list"

type_synonym classeur = "feuille list"

definition sheetname_invalid :: "string \<Rightarrow> bool" where
  \<comment> \<open>the check of xlsxwriter on a new name: at most 31 characters, none of
      \<^verbatim>\<open>[ ] : * ? / \<close> and the backslash, no apostrophe first or last\<close>
  "sheetname_invalid name =
     (31 < length name \<or>
      list_ex (\<lambda>c. c \<in> set (''[]:*?/'' @ [CHR 0x5C])) name \<or>
      (name \<noteq> [] \<and> (hd name = CHR 0x27 \<or> last name = CHR 0x27)))"

definition to_excel :: "classeur \<Rightarrow> string \<Rightarrow> ligne list \<Rightarrow> erreur + classeur" where
  \<comment> \<open>\<^verbatim>\<open>df.to_excel(writer, index=False, sheet_name=...)\<close>: pandas writes into the worksheet
      of that name when the workbook has one, and asks xlsxwriter for a new worksheet
      otherwise, which raises on an invalid name and on a name that differs from an
      existing one by the case of its letters only\<close>
  "to_excel wb sheet_name df =
     (if sheet_name \<in> set (map fst wb)
        then Inr (map (\<lambda>f. if fst f = sheet_name then (fst f, snd f @ [df]) else f) wb)
      else if sheetname_invalid sheet_name
        then Inl (Invalid_worksheet_name sheet_name)
      else if py_lower sheet_name \<in> set (map (\<lambda>f. py_lower (fst f)) wb)
        then Inl (Duplicate_worksheet_name sheet_name)
      else Inr (wb @ [(sheet_name, [df])]))"

subsection \<open>The page (lines 171 to 240)\<close>

text \<open>An entry of \<^verbatim>\<open>agence_infos\<close>: the name of an agency and its inventory.\<close>

type_synonym agence = "string \<times> article list"

text \<open>
  What the user gives for one agency: the text typed as its name, and the uploaded file,
  if there is one, as the reader of lines 43 to 46 returns it (a frame or an exception).
\<close>

type_synonym saisie = "string \<times> (erreur + dataframe) option"

definition charger_fichier :: "erreur + dataframe \<Rightarrow> erreur + article list" where
  \<comment> \<open>\<^verbatim>\<open>charger_inventaire(uploaded)\<close> from line 43 on\<close>
  "charger_fichier f = (case f of Inl e \<Rightarrow> Inl e | Inr df \<Rightarrow> charger_inventaire df)"

fun collecter :: "saisie list \<Rightarrow> agence list" where
  \<comment> \<open>lines 175 to 202: the loop that fills \<^verbatim>\<open>agence_infos\<close>; an exception of the
      loading is shown and the agency left out\<close>
  "collecter [] = []"
| "collecter ((nom_agence, uploaded) # rest) =
     (case uploaded of
        None \<Rightarrow> collecter rest
      | Some f \<Rightarrow>
          if py_strip nom_agence \<noteq> [] then
            (case charger_fichier f of
               Inl e \<Rightarrow> collecter rest
             | Inr df_inv \<Rightarrow> (py_strip nom_agence, df_inv) # collecter rest)
          else collecter rest)"

record rapport =
  nom_rapport :: string
  file_name :: string
  feuilles :: classeur

definition sheet_name_of :: "string \<Rightarrow> string \<Rightarrow> string" where
  \<comment> \<open>lines 223 and 224\<close>
  "sheet_name_of nom_ref nom_other = take 31 (nom_ref @ ''_vs_'' @ nom_other)"

fun ecrire_onglets ::
    "argsort \<Rightarrow> nat \<Rightarrow> agence \<Rightarrow> (nat \<times> agence) list \<Rightarrow> classeur \<Rightarrow> erreur + classeur" where
  \<comment> \<open>lines 216 to 226: the inner loop, over what is left of \<^verbatim>\<open>enumerate(agence_infos)\<close>\<close>
  "ecrire_onglets argsort idx_ref ref [] wb = Inr wb"
| "ecrire_onglets argsort idx_ref ref ((idx_other, other) # rest) wb =
     (if idx_other = idx_ref then ecrire_onglets argsort idx_ref ref rest wb
      else (case comparer_deux_agences argsort (fst ref) (snd ref) (fst other) (snd other) of
              Inl e \<Rightarrow> Inl e
            | Inr df_comp \<Rightarrow>
                (case to_excel wb (sheet_name_of (fst ref) (fst other)) df_comp of
                   Inl e \<Rightarrow> Inl e
                 | Inr wb' \<Rightarrow> ecrire_onglets argsort idx_ref ref rest wb')))"

fun generer_rapports ::
    "argsort \<Rightarrow> agence list \<Rightarrow> (nat \<times> agence) list \<Rightarrow> rapport list \<times> erreur option" where
  \<comment> \<open>lines 213 to 235: the outer loop; the reports offered before an exception stay on
      the page\<close>
  "generer_rapports argsort infos [] = ([], None)"
| "generer_rapports argsort infos ((idx_ref, ref) # rest) =
     (case ecrire_onglets argsort idx_ref ref (enumerate 0 infos) [] of
        Inl e \<Rightarrow> ([], Some e)
      | Inr wb \<Rightarrow>
          (let suite = generer_rapports argsort infos rest
           in (\<lparr>nom_rapport = fst ref,
                file_name = ''rapport_inventaire_'' @ fst ref @ ''.xlsx'',
                feuilles = wb\<rparr> # fst suite, snd suite)))"

datatype issue = Refus | Termine | Interrompu erreur

definition bouton_generer :: "argsort \<Rightarrow> agence list \<Rightarrow> issue \<times> rapport list" where
  \<comment> \<open>lines 206 to 240: the handler of the button, with the reports it offers\<close>
  "bouton_generer argsort agence_infos =
     (if length agence_infos < 2 then (Refus, [])
      else (case generer_rapports argsort agence_infos (enumerate 0 agence_infos) of
              (docs, None) \<Rightarrow> (Termine, docs)
            | (docs, Some e) \<Rightarrow> (Interrompu e, docs)))"

text \<open>
  The words of the claims about the page: an agency counts when it has a name that is
  not blank and a file that loads; the names of the sheets of the report of the agency
  at position \<open>i\<close>; and the names with which no sheet meets another.
\<close>

definition agence_valide :: "saisie \<Rightarrow> bool" where
  "agence_valide s =
     (case snd s of
        None \<Rightarrow> False
      | Some f \<Rightarrow> py_strip (fst s) \<noteq> [] \<and> \<not> isl (charger_fichier f))"



subsection \<open>Example headers\<close>

definition entetes_ain :: "string list" where
  \<comment> \<open>the five headers as the program's own list of line 52 spells them\<close>
  "entetes_ain =
     [''Code article'', ''D'' @ [e_acute] @ ''signation'', ''Stock th'' @ [e_acute] @ ''orique'',
      ''Stock physique'', ''Ecart'']"

definition entetes_accent :: "string list" where
  \<comment> \<open>the same, but the last header is spelt with a capital E with an acute accent\<close>
  "entetes_accent =
     [''Code article'', ''D'' @ [e_acute] @ ''signation'', ''Stock th'' @ [e_acute] @ ''orique'',
      ''Stock physique'', [E_acute] @ ''cart'']"

subsection \<open>Example frames\<close>

definition df_exemple :: dataframe where
  \<comment> \<open>three rows under the five headers (each followed by a non-breaking space) and one
      more column; the second row has no code, the third a code of two spaces\<close>
  "df_exemple =
     \<lparr>df_columns = map (\<lambda>h. h @ [nbsp]) entetes_ain @ [''Autre''],
      df_rows =
        [[Str_cell ''A1 '', Str_cell ''vis'', Str_cell ''1 2,5'', Str_cell ''abc'', Int_cell 7, NaN_cell],
         [NaN_cell, Str_cell ''clou'', Int_cell 1, Int_cell 1, Int_cell 0, NaN_cell],
         [Str_cell ''  '', Str_cell ''ecrou'', Int_cell 1, Int_cell 1, Int_cell 0, NaN_cell]]\<rparr>"

definition df_code_blanc :: dataframe where
  \<comment> \<open>one row, whose code is two spaces\<close>
  "df_code_blanc =
     \<lparr>df_columns = entetes_ain,
      df_rows = [[Str_cell ''  '', Str_cell ''ecrou'', Int_cell 1, Int_cell 1, Int_cell 0]]\<rparr>"


subsection \<open>Example inventories\<close>

definition article_ex :: "string \<Rightarrow> string \<Rightarrow> rat \<Rightarrow> article" where
  \<comment> \<open>an article with its code, its description and its discrepancy, both stocks 0\<close>
  "article_ex code des e =
     \<lparr>code_article = code, designation = Str_cell des, stock_theorique = Some (Fin 0),
      stock_physique = Some (Fin 0), ecart = Some (Fin e)\<rparr>"

definition inv_aab :: "article list" where
  "inv_aab =
     [article_ex ''A'' ''ref 1'' 1, article_ex ''A'' ''ref 2'' 2, article_ex ''B'' ''ref 3'' 3]"

definition inv_ac :: "article list" where
  "inv_ac = [article_ex ''A'' ''autre 1'' 10, article_ex ''C'' ''autre 2'' 20]"


definition inv_xy2 :: "article list" where
  "inv_xy2 = [article_ex ''X'' ''x'' 2, article_ex ''Y'' ''y'' (- 2)]"

definition inv_pqrs :: "article list" where
  \<comment> \<open>four articles whose discrepancies are \<^verbatim>\<open>NaN\<close>, -5, 3 and -3\<close>
  "inv_pqrs =
     [(article_ex ''P'' ''p'' 0)\<lparr>ecart := None\<rparr>, article_ex ''Q'' ''q'' (- 5),
      article_ex ''R'' ''r'' 3, article_ex ''S'' ''s'' (- 3)]"

definition inv_pqrs0 :: "article list" where
  \<comment> \<open>the same four articles, each with the discrepancy 0\<close>
  "inv_pqrs0 =
     [article_ex ''P'' ''p'' 0, article_ex ''Q'' ''q'' 0, article_ex ''R'' ''r'' 0,
      article_ex ''S'' ''s'' 0]"

subsection \<open>Example pages\<close>

definition df_accent :: dataframe where
  \<comment> \<open>a file with the headers of \<^const>\<open>entetes_accent\<close> and no row\<close>
  "df_accent = \<lparr>df_columns = entetes_accent, df_rows = []\<rparr>"

definition saisies_une :: "saisie list" where
  \<comment> \<open>five agencies, of which one has a name and a file that loads: the second has a
      blank name, the third no file, the fourth a file that cannot be read, the fifth a
      file without a header for Ecart\<close>
  "saisies_une =
     [(''Nord'', Some (Inr df_exemple)), (''  '', Some (Inr df_exemple)), (''Sud'', None),
      (''Est'', Some (Inl Lecture_impossible)), (''Ouest'', Some (Inr df_accent))]"

definition saisies_deux :: "saisie list" where
  "saisies_deux = [('' Nord '', Some (Inr df_exemple)), (''Sud'', Some (Inr df_code_blanc))]"



section \<open>Properties\<close>

subsection \<open>The column resolver\<close>

lemma logical_col_UNIV:
  "(UNIV :: logical_col set) = set required_logical_cols"
proof -
  have "f \<in> set required_logical_cols" for f
    by (cases f) (simp_all add: required_logical_cols_def)
  then show ?thesis by auto
qed

lemma detect_step_eq_spec: "detect_step m col = detect_step_spec m col"
  by (simp add: detect_step_def detect_step_spec_def first_unfilled_match_def
      required_logical_cols_def Let_def)

lemma detect_step_changes:
  "{f. detect_step m col f \<noteq> m f} \<subseteq> (case first_unfilled_match m col of None \<Rightarrow> {} | Some f \<Rightarrow> {f})"
  by (auto simp: detect_step_eq_spec detect_step_spec_def split: option.splits if_splits)

text \<open>
  C10. One header fills at most one logical column: the step of the loop is the rule
  "first column in the order Code article, Designation, Stock theorique, Stock physique,
  Ecart whose pattern matches and which is still unfilled", and it changes the dictionary
  at no other column.
\<close>

theorem detect_step_first_unfilled_only:
  "detect_step m col = detect_step_spec m col \<and>
   card {f. detect_step m col f \<noteq> m f} \<le> 1 \<and>
   {f. detect_step m col f \<noteq> m f} \<subseteq> set_option (first_unfilled_match m col)"
proof -
  have sub: "{f. detect_step m col f \<noteq> m f} \<subseteq> set_option (first_unfilled_match m col)"
    using detect_step_changes [of m col] by (auto split: option.splits)
  have "card {f. detect_step m col f \<noteq> m f} \<le> card (set_option (first_unfilled_match m col))"
    by (rule card_mono) (use sub in \<open>auto split: option.splits\<close>)
  also have "\<dots> \<le> 1"
    by (cases "first_unfilled_match m col") simp_all
  finally show ?thesis
    using sub detect_step_eq_spec by blast
qed

theorem detect_step_first_unfilled_only_witness:
  "detect_step Map.empty ''Ecart code article'' Code_article = Some ''Ecart code article'' \<and>
   detect_step Map.empty ''Ecart code article'' Ecart = None \<and>
   card {f. detect_step Map.empty ''Ecart code article'' f \<noteq> Map.empty f} \<le> 1"
proof -
  have "first_unfilled_match Map.empty ''Ecart code article'' = Some Code_article"
    by code_simp
  then show ?thesis
    using detect_step_first_unfilled_only [of Map.empty "''Ecart code article''"]
    by (simp add: detect_step_spec_def)
qed

text \<open>
  C6. The resolver raises exactly when, after the scan of all headers, some logical
  column has no header in \<^verbatim>\<open>col_map\<close>; the error then carries the logical columns without
  a header, in the order of \<^verbatim>\<open>required_logical_cols\<close>, and the complete list of the
  headers of the file. When every logical column has a header, the dictionary is
  returned and nothing is raised.
\<close>

theorem resolve_columns_fails_iff:
  "resolve_columns cols =
     (if \<exists>f. detect_columns cols f = None
      then Inl (Colonnes_manquantes
                 (filter (\<lambda>f. detect_columns cols f = None) required_logical_cols) cols)
      else Inr (detect_columns cols))"
proof -
  have "(filter (\<lambda>f. detect_columns cols f = None) required_logical_cols \<noteq> []) =
        (\<exists>f. detect_columns cols f = None)"
    using logical_col_UNIV by (auto simp: filter_empty_conv)
  then show ?thesis
    by (simp add: resolve_columns_def Let_def)
qed

theorem resolve_columns_fails_iff_witness:
  "resolve_columns [''Code article'', ''Ecart''] =
     Inl (Colonnes_manquantes [Designation, Stock_theorique, Stock_physique]
            [''Code article'', ''Ecart'']) \<and>
   resolve_columns entetes_ain = Inr (detect_columns entetes_ain)"
proof -
  have "detect_columns [''Code article'', ''Ecart''] Designation = None"
    by code_simp
  then have "\<exists>f. detect_columns [''Code article'', ''Ecart''] f = None" ..
  moreover have "filter (\<lambda>f. detect_columns [''Code article'', ''Ecart''] f = None)
      required_logical_cols = [Designation, Stock_theorique, Stock_physique]"
    by code_simp
  ultimately have 1: "resolve_columns [''Code article'', ''Ecart''] =
     Inl (Colonnes_manquantes [Designation, Stock_theorique, Stock_physique]
            [''Code article'', ''Ecart''])"
    using resolve_columns_fails_iff [of "[''Code article'', ''Ecart'']"] by simp
  have "\<forall>f \<in> set required_logical_cols. detect_columns entetes_ain f \<noteq> None"
    by code_simp
  then have "\<not> (\<exists>f. detect_columns entetes_ain f = None)"
    using logical_col_UNIV by auto
  then have 2: "resolve_columns entetes_ain = Inr (detect_columns entetes_ain)"
    using resolve_columns_fails_iff [of entetes_ain] by simp
  from 1 2 show ?thesis ..
qed

text \<open>
  C1, as the program has it. A header becomes the header of Ecart exactly when Ecart has
  no header yet, the header, lower-cased (with a non-breaking space read as a space),
  starts with the five letters \<open>ecart\<close>, and no earlier branch of the chain takes the
  header (its pattern occurs in the header and its column has no header yet). The test
  ignores the case of the letters and nothing else: there is no folding of accents.
\<close>

theorem ecart_assigned_iff:
  "(m Ecart = None \<and> detect_step m col Ecart = Some col) \<longleftrightarrow>
   (m Ecart = None \<and> startswith (col_clean_of col) ''ecart'' \<and>
    \<not> (py_in ''code article'' (col_clean_of col) \<and> m Code_article = None) \<and>
    \<not> (py_in pat_designation (col_clean_of col) \<and> m Designation = None) \<and>
    \<not> (py_in pat_stock_theorique (col_clean_of col) \<and> m Stock_theorique = None) \<and>
    \<not> (py_in ''stock physique'' (col_clean_of col) \<and> m Stock_physique = None))"
  by (auto simp: detect_step_def Let_def)

theorem ecart_assigned_iff_witness:
  "detect_step Map.empty ''ECART (valeur)'' Ecart = Some ''ECART (valeur)''"
proof -
  have "startswith (col_clean_of ''ECART (valeur)'') ''ecart'' \<and>
    \<not> py_in ''code article'' (col_clean_of ''ECART (valeur)'') \<and>
    \<not> py_in pat_designation (col_clean_of ''ECART (valeur)'') \<and>
    \<not> py_in pat_stock_theorique (col_clean_of ''ECART (valeur)'') \<and>
    \<not> py_in ''stock physique'' (col_clean_of ''ECART (valeur)'')"
    by code_simp
  then show ?thesis
    using ecart_assigned_iff [of Map.empty "''ECART (valeur)''"] by simp
qed

text \<open>
  A file whose last header starts with an accented capital E: no header is found for
  Ecart, and the resolver raises with Ecart as the one missing column.
\<close>

theorem accented_ecart_not_resolved:
  "detect_columns (map clean_column entetes_accent) Ecart = None \<and>
   resolve_columns (map clean_column entetes_accent) =
     Inl (Colonnes_manquantes [Ecart] entetes_accent)"
proof -
  have 1: "detect_columns (map clean_column entetes_accent) Ecart = None"
    by code_simp
  have 2: "filter (\<lambda>c. detect_columns (map clean_column entetes_accent) c = None)
      required_logical_cols = [Ecart]"
    by code_simp
  have 3: "map clean_column entetes_accent = entetes_accent"
    by code_simp
  from 2 have "resolve_columns (map clean_column entetes_accent) =
     Inl (Colonnes_manquantes [Ecart] (map clean_column entetes_accent))"
    by (simp add: resolve_columns_def Let_def)
  with 1 3 show ?thesis by simp
qed

subsection \<open>The inventory parser\<close>










text \<open>
  C4. The conversion of lines 102 to 109, applied to a cell of each of the three numeric
  columns: the text \<open>1 234,56\<close>, with a space or a non-breaking space between the
  thousands and a comma before the decimals, also after a leading space, gives 1234.56;
  the text \<open>abc\<close> gives \<^verbatim>\<open>NaN\<close>; the integer 7 gives 7.
\<close>

theorem conversion_numerique_examples:
  "conversion_numerique (Str_cell ''1 234,56'') = Some (Fin (123456 / 100)) \<and>
   conversion_numerique (Str_cell (''1'' @ [nbsp] @ ''234,56'')) = Some (Fin (123456 / 100)) \<and>
   conversion_numerique (Str_cell ('' 1'' @ [nbsp] @ ''234,56'')) = Some (Fin (123456 / 100)) \<and>
   conversion_numerique (Str_cell ''abc'') = None \<and>
   conversion_numerique (Int_cell 7) = Some (Fin 7)"
proof -
  have 7: "astype_str (Int_cell 7) = ''7''"
    by code_simp
  have "conversion_numerique (Int_cell 7) = Some (Fin 7)"
    by (simp add: 7 conversion_numerique_def to_numeric_def parse_decimal_def parse_exponent_def
        is_digit_def nat_of_digits_def digit_value_def c_isspace_def replace_char_def nbsp_def)
  then show ?thesis
    by (simp add: conversion_numerique_def to_numeric_def parse_decimal_def parse_exponent_def
        parse_infinity_def is_digit_def nat_of_digits_def digit_value_def c_isspace_def
        astype_str_def replace_char_def nbsp_def py_lower_def lower_char_def)
qed

subsection \<open>The pairwise comparator\<close>


lemma map_Some_map_filter:
  "\<forall>x \<in> set xs. f x \<noteq> None \<Longrightarrow> map Some (List.map_filter f xs) = map f xs"
  by (induction xs) (auto simp: List.map_filter_simps)

lemma mset_filter_split:
  "mset (filter (\<lambda>i. \<not> P i) xs) + mset (filter P xs) = mset xs"
  by (induction xs) auto

lemma argsort_ok_mset: "argsort_ok A \<Longrightarrow> mset (A xs) = mset [0..<length xs]"
  by (simp add: argsort_ok_def)

lemma argsort_ok_sorted: "argsort_ok A \<Longrightarrow> sorted (map (\<lambda>i. xs ! i) (A xs))"
  by (simp add: argsort_ok_def)

lemma argsort_ok_set: "argsort_ok A \<Longrightarrow> set (A xs) = {0..<length xs}"
  using argsort_ok_mset [of A xs] by (metis mset_eq_setD set_upt)

lemma nargsort_desc_props:
  assumes A: "argsort_ok A"
  shows "mset (nargsort_desc A items) = mset [0..<length items]"
    and "\<exists>ks n. map (\<lambda>i. items ! i) (nargsort_desc A items) = map Some ks @ replicate n None \<and>
           sorted (rev ks)"
    and "filter (\<lambda>i. items ! i = None) (nargsort_desc A items) =
           filter (\<lambda>i. items ! i = None) [0..<length items]"
proof -
  define K where "K = filter (\<lambda>i. items ! i \<noteq> None) [0..<length items]"
  define N where "N = filter (\<lambda>i. items ! i = None) [0..<length items]"
  define R where "R = rev K"
  define V where "V = List.map_filter (\<lambda>i. items ! i) R"
  define p where "p = A V"
  have eq: "nargsort_desc A items = rev (map (\<lambda>j. R ! j) p) @ N"
    by (simp add: nargsort_desc_def Let_def K_def N_def R_def V_def p_def)
  have R_some: "\<forall>i \<in> set R. items ! i \<noteq> None"
    by (auto simp: R_def K_def)
  then have SV: "map Some V = map (\<lambda>i. items ! i) R"
    unfolding V_def by (rule map_Some_map_filter)
  then have lenV: "length V = length R"
    by (metis length_map)
  have V_nth: "items ! (R ! j) = Some (V ! j)" if "j < length R" for j
  proof -
    have "map Some V ! j = map (\<lambda>i. items ! i) R ! j" using SV by simp
    then show ?thesis using that lenV by simp
  qed
  have p_set: "set p = {0..<length R}"
    using argsort_ok_set [OF A, of V] lenV by (simp add: p_def)
  have p_mset: "mset p = mset [0..<length R]"
    using argsort_ok_mset [OF A, of V] lenV by (simp add: p_def)
  have keys_idx: "map (\<lambda>i. items ! i) (rev (map (\<lambda>j. R ! j) p)) = map Some (rev (map (\<lambda>j. V ! j) p))"
    using p_set V_nth by (simp add: rev_map)
  have N_none: "map (\<lambda>i. items ! i) N = replicate (length N) None"
    by (simp add: N_def map_replicate_const [symmetric] cong: map_cong)
  have "mset (map (\<lambda>j. R ! j) p) = mset R"
  proof -
    have "mset (map (\<lambda>j. R ! j) p) = image_mset (\<lambda>j. R ! j) (mset [0..<length R])"
      using p_mset by (metis mset_map)
    also have "\<dots> = mset (map (\<lambda>j. R ! j) [0..<length R])" by simp
    also have "\<dots> = mset R" by (simp add: map_nth)
    finally show ?thesis .
  qed
  then have "mset (nargsort_desc A items) = mset K + mset N"
    by (simp add: eq R_def)
  also have "\<dots> = mset [0..<length items]"
    unfolding K_def N_def by (rule mset_filter_split)
  finally show "mset (nargsort_desc A items) = mset [0..<length items]" .
  have "sorted (rev (rev (map (\<lambda>j. V ! j) p)))"
    using argsort_ok_sorted [OF A, of V] by (simp add: p_def)
  then show "\<exists>ks n. map (\<lambda>i. items ! i) (nargsort_desc A items) = map Some ks @ replicate n None \<and>
           sorted (rev ks)"
    unfolding eq map_append keys_idx N_none
    by (intro exI [of _ "rev (map (\<lambda>j. V ! j) p)"] exI [of _ "length N"]) simp
  have "set (map (\<lambda>j. R ! j) p) \<subseteq> set R"
    using p_set by auto
  then have "filter (\<lambda>i. items ! i = None) (rev (map (\<lambda>j. R ! j) p)) = []"
    using R_some by (auto simp: filter_empty_conv)
  then show "filter (\<lambda>i. items ! i = None) (nargsort_desc A items) =
           filter (\<lambda>i. items ! i = None) [0..<length items]"
    by (simp add: eq N_def)
qed



lemma sort_values_somme_mset:
  assumes "argsort_ok A"
  shows "mset (sort_values_somme A res) = mset res"
proof -
  have "mset (sort_values_somme A res) =
        image_mset (\<lambda>i. res ! i) (mset (nargsort_desc A (map cle_tri res)))"
    by (simp add: sort_values_somme_def)
  also have "\<dots> = image_mset (\<lambda>i. res ! i) (mset [0..<length res])"
    using nargsort_desc_props(1) [OF assms, of "map cle_tri res"] by simp
  also have "\<dots> = mset (map (\<lambda>i. res ! i) [0..<length res])" by simp
  also have "\<dots> = mset res" by (simp add: map_nth)
  finally show ?thesis .
qed




lemma argsort_stable_ok: "argsort_ok argsort_stable"
  by (simp add: argsort_ok_def argsort_stable_def sorted_sort_key)





lemma map_of_set_col:
  "map_of (set_col c v r) k = (if k = c then Some v else map_of r k)"
  by (induction r) auto

lemma merge_inner_product:
  "merge_inner a b =
     map (\<lambda>p. (fst p, ecart (snd p)))
       (filter (\<lambda>p. code_article (fst p) = code_article (snd p)) (List.product a b))"
proof (induction a)
  case Nil
  then show ?case by (simp add: merge_inner_def)
next
  case (Cons x a)
  have "map (\<lambda>rb. (x, ecart rb)) (filter (\<lambda>rb. code_article rb = code_article x) b) =
        map (\<lambda>p. (fst p, ecart (snd p)))
          (filter (\<lambda>p. code_article (fst p) = code_article (snd p)) (map (Pair x) b))"
    by (simp add: filter_map o_def eq_commute)
  with Cons show ?case by (simp add: merge_inner_def)
qed

lemma partie_reference_ligne_res:
  "partie_reference (ligne_res nom_a nom_b m) = partie_article (fst m)"
  by (simp add: partie_reference_def partie_article_def ligne_res_def Let_def map_of_set_col
      col_designation_def col_stock_theorique_def col_agence_comparee_def e_acute_def
      del: set_col.simps)

text \<open>
  C5. For every sorter that does what \<^verbatim>\<open>numpy.argsort\<close> promises and two agencies of
  different names (with equal names line 156 raises), the result holds one row for
  every pair of a row of the reference and a row of the other table with the same code,
  and no other row; the code, the description and the two stocks of that row are those
  of the row of the reference. So the codes of the result are the codes the two tables
  share, and a code that occurs twice in the reference and once in the other table gives
  two rows.
\<close>

theorem comparer_is_inner_join:
  assumes "argsort_ok argsort" and "nom_a \<noteq> nom_b"
  shows "\<exists>res.
           comparer_deux_agences argsort nom_a df_a nom_b df_b = Inr res \<and>
           mset (map partie_reference res) =
             mset (map (\<lambda>p. partie_article (fst p))
                    (filter (\<lambda>p. code_article (fst p) = code_article (snd p))
                       (List.product df_a df_b))) \<and>
           length res =
             length (filter (\<lambda>p. code_article (fst p) = code_article (snd p))
                       (List.product df_a df_b)) \<and>
           (\<lambda>r. map_of r ''Code article'') ` set res =
             (\<lambda>c. Some (Texte c)) ` (code_article ` set df_a \<inter> code_article ` set df_b)"
proof -
  let ?J = "filter (\<lambda>p. code_article (fst p) = code_article (snd p)) (List.product df_a df_b)"
  let ?rows = "map (ligne_res nom_a nom_b) (merge_inner df_a df_b)"
  define res where "res = sort_values_somme argsort ?rows"
  have r: "comparer_deux_agences argsort nom_a df_a nom_b df_b = Inr res"
    using assms(2) by (simp add: comparer_deux_agences_def res_def)
  have m: "mset res = mset ?rows"
    unfolding res_def by (rule sort_values_somme_mset [OF assms(1)])
  have rows: "map partie_reference ?rows = map (\<lambda>p. partie_article (fst p)) ?J"
    by (simp add: merge_inner_product partie_reference_ligne_res o_def)
  have "mset (map partie_reference res) = image_mset partie_reference (mset res)"
    by simp
  also have "\<dots> = image_mset partie_reference (mset ?rows)"
    by (simp only: m)
  also have "\<dots> = mset (map partie_reference ?rows)"
    by (simp only: mset_map)
  finally have "mset (map partie_reference res) = mset (map partie_reference ?rows)" .
  then have 1: "mset (map partie_reference res) = mset (map (\<lambda>p. partie_article (fst p)) ?J)"
    unfolding rows .
  have "length res = length ?rows"
    using m by (rule mset_eq_length)
  also have "\<dots> = length ?J"
    by (simp add: merge_inner_product)
  finally have 2: "length res = length ?J" .
  have "set res = set ?rows"
    using m by (rule mset_eq_setD)
  then have "(\<lambda>r. map_of r ''Code article'') ` set res =
        (\<lambda>r. fst (partie_reference r)) ` set ?rows"
    by (simp add: partie_reference_def)
  also have "\<dots> = set (map fst (map partie_reference ?rows))"
    by (simp add: image_image)
  also have "\<dots> = (\<lambda>p. Some (Texte (code_article (fst p)))) ` set ?J"
    unfolding rows by (simp add: image_image partie_article_def)
  also have "\<dots> = (\<lambda>c. Some (Texte c)) ` (code_article ` set df_a \<inter> code_article ` set df_b)"
  proof -
    have "code_article ` fst ` set ?J = code_article ` set df_a \<inter> code_article ` set df_b"
      by (auto simp: image_iff) (metis fst_conv snd_conv)
    then show ?thesis
      by (metis image_image)
  qed
  finally have 3: "(\<lambda>r. map_of r ''Code article'') ` set res =
    (\<lambda>c. Some (Texte c)) ` (code_article ` set df_a \<inter> code_article ` set df_b)" .
  from r 1 2 3 show ?thesis by blast
qed

theorem comparer_is_inner_join_witness:
  "argsort_ok argsort_stable \<and>
   map partie_reference
     (projr (comparer_deux_agences argsort_stable ''Nord'' inv_aab ''Sud'' inv_ac)) =
     [partie_article (article_ex ''A'' ''ref 2'' 2), partie_article (article_ex ''A'' ''ref 1'' 1)] \<and>
   (\<exists>res.
      comparer_deux_agences argsort_stable ''Nord'' inv_aab ''Sud'' inv_ac = Inr res \<and>
      mset (map partie_reference res) =
        mset (map (\<lambda>p. partie_article (fst p))
               (filter (\<lambda>p. code_article (fst p) = code_article (snd p))
                  (List.product inv_aab inv_ac))) \<and>
      length res =
        length (filter (\<lambda>p. code_article (fst p) = code_article (snd p))
                  (List.product inv_aab inv_ac)) \<and>
      (\<lambda>r. map_of r ''Code article'') ` set res =
        (\<lambda>c. Some (Texte c)) ` (code_article ` set inv_aab \<inter> code_article ` set inv_ac))"
proof -
  have ne: "''Nord'' \<noteq> ''Sud''"
    by simp
  have "map partie_reference
     (projr (comparer_deux_agences argsort_stable ''Nord'' inv_aab ''Sud'' inv_ac)) =
     [partie_article (article_ex ''A'' ''ref 2'' 2), partie_article (article_ex ''A'' ''ref 1'' 1)]"
    by code_simp
  with argsort_stable_ok comparer_is_inner_join [OF argsort_stable_ok ne, of inv_aab inv_ac]
  show ?thesis by (intro conjI)
qed

lemma ligne_res_ecarts:
  assumes "nom_a \<noteq> nom_b" and "nom_a \<noteq> ''des_2_agences''" and "nom_b \<noteq> ''des_2_agences''"
  shows "col_num (ligne_res nom_a nom_b m) (''Ecart_'' @ nom_a) = ecart (fst m)"
    and "col_num (ligne_res nom_a nom_b m) (''Ecart_'' @ nom_b) = snd m"
    and "col_num (ligne_res nom_a nom_b m) ''Ecart_des_2_agences'' = nan_sub (snd m) (ecart (fst m))"
    and "col_num (ligne_res nom_a nom_b m) ''Somme_ecarts'' = nan_add (ecart (fst m)) (snd m)"
  using assms
  by (simp_all add: col_num_def ligne_res_def Let_def map_of_set_col
      col_designation_def col_stock_theorique_def col_agence_comparee_def e_acute_def
      del: set_col.simps)

lemma nan_arith_None:
  "nan_sub None x = None" "nan_sub x None = None" "nan_add None x = None" "nan_add x None = None"
  by (simp_all add: nan_sub_def nan_add_def split: option.splits)

text \<open>
  C7 at an agency called \<open>des_2_agences\<close>. The column of its discrepancies is then
  named \<^verbatim>\<open>Ecart_des_2_agences\<close>, the name line 162 assigns to: the difference
  replaces the discrepancies of that agency, and line 163 adds the difference, not the
  discrepancy. With the discrepancies 1 for the reference and 2 for the other agency, the
  row has 1 under \<^verbatim>\<open>Ecart_Nord\<close>, 1 under \<^verbatim>\<open>Ecart_des_2_agences\<close> and 2, not 3, under
  \<^verbatim>\<open>Somme_ecarts\<close>; no column holds the 2.
\<close>

theorem somme_ecarts_agence_des_2_agences:
  "map (\<lambda>r. (col_num r ''Ecart_Nord'', col_num r ''Ecart_des_2_agences'',
              col_num r ''Somme_ecarts''))
     (projr (comparer_deux_agences argsort_stable ''Nord'' [article_ex ''X'' ''x'' 1]
               ''des_2_agences'' [article_ex ''X'' ''x'' 2])) =
     [(Some (Fin 1), Some (Fin 1), Some (Fin 2))] \<and>
   map (map fst)
     (projr (comparer_deux_agences argsort_stable ''Nord'' [article_ex ''X'' ''x'' 1]
               ''des_2_agences'' [article_ex ''X'' ''x'' 2])) =
     [[''Agence'', col_agence_comparee, ''Code article'', col_designation, col_stock_theorique,
       ''Stock physique'', ''Ecart_Nord'', ''Ecart_des_2_agences'', ''Somme_ecarts'']] \<and>
   nan_add (Some (Fin 1)) (Some (Fin 2)) = Some (Fin 3)"
  by code_simp

text \<open>
  The derived columns for every other pair of names. For every sorter that does what
  \<^verbatim>\<open>numpy.argsort\<close> promises and two agencies of different names, neither of them
  \<open>des_2_agences\<close>, every row of the result has under \<^verbatim>\<open>Ecart_des_2_agences\<close> the
  discrepancy of the other agency minus that of the reference, and under
  \<^verbatim>\<open>Somme_ecarts\<close> their sum; both are \<^verbatim>\<open>NaN\<close> when one of the two discrepancies is.
\<close>

theorem comparer_derived_columns:
  assumes "argsort_ok argsort" and "nom_a \<noteq> nom_b"
    and "nom_a \<noteq> ''des_2_agences''" and "nom_b \<noteq> ''des_2_agences''"
  shows "\<exists>res.
           comparer_deux_agences argsort nom_a df_a nom_b df_b = Inr res \<and>
           (\<forall>r \<in> set res.
              col_num r ''Ecart_des_2_agences'' =
                nan_sub (col_num r (''Ecart_'' @ nom_b)) (col_num r (''Ecart_'' @ nom_a)) \<and>
              col_num r ''Somme_ecarts'' =
                nan_add (col_num r (''Ecart_'' @ nom_a)) (col_num r (''Ecart_'' @ nom_b)) \<and>
              (col_num r (''Ecart_'' @ nom_a) = None \<or> col_num r (''Ecart_'' @ nom_b) = None \<longrightarrow>
                 col_num r ''Ecart_des_2_agences'' = None \<and> col_num r ''Somme_ecarts'' = None))"
proof -
  let ?rows = "map (ligne_res nom_a nom_b) (merge_inner df_a df_b)"
  define res where "res = sort_values_somme argsort ?rows"
  have r: "comparer_deux_agences argsort nom_a df_a nom_b df_b = Inr res"
    using assms(2) by (simp add: comparer_deux_agences_def res_def)
  have "mset res = mset ?rows"
    unfolding res_def by (rule sort_values_somme_mset [OF assms(1)])
  then have s: "set res = set ?rows"
    by (rule mset_eq_setD)
  have "col_num r ''Ecart_des_2_agences'' =
          nan_sub (col_num r (''Ecart_'' @ nom_b)) (col_num r (''Ecart_'' @ nom_a)) \<and>
        col_num r ''Somme_ecarts'' =
          nan_add (col_num r (''Ecart_'' @ nom_a)) (col_num r (''Ecart_'' @ nom_b)) \<and>
        (col_num r (''Ecart_'' @ nom_a) = None \<or> col_num r (''Ecart_'' @ nom_b) = None \<longrightarrow>
           col_num r ''Ecart_des_2_agences'' = None \<and> col_num r ''Somme_ecarts'' = None)"
    if "r \<in> set res" for r
  proof -
    from that s obtain m where "r = ligne_res nom_a nom_b m" by auto
    then show ?thesis
      using ligne_res_ecarts [OF assms(2,3,4), of m] nan_arith_None by auto
  qed
  with r show ?thesis by blast
qed

theorem comparer_derived_columns_witness:
  "argsort_ok argsort_stable \<and>
   map (\<lambda>r. (col_num r ''Ecart_Nord'', col_num r ''Ecart_Sud'',
              col_num r ''Ecart_des_2_agences'', col_num r ''Somme_ecarts''))
     (projr (comparer_deux_agences argsort_stable ''Nord'' inv_pqrs ''Sud'' inv_xy2 )) = [] \<and>
   map (\<lambda>r. (col_num r ''Ecart_Nord'', col_num r ''Ecart_Sud'',
              col_num r ''Ecart_des_2_agences'', col_num r ''Somme_ecarts''))
     (projr (comparer_deux_agences argsort_stable ''Nord'' inv_pqrs ''Sud'' inv_pqrs0)) =
     [(Some (Fin (- 5)), Some (Fin 0), Some (Fin 5), Some (Fin (- 5))),
      (Some (Fin 3), Some (Fin 0), Some (Fin (- 3)), Some (Fin 3)),
      (Some (Fin (- 3)), Some (Fin 0), Some (Fin 3), Some (Fin (- 3))),
      (None, Some (Fin 0), None, None)] \<and>
   (\<exists>res.
      comparer_deux_agences argsort_stable ''Nord'' inv_pqrs ''Sud'' inv_pqrs0 = Inr res \<and>
      (\<forall>r \<in> set res.
         col_num r ''Ecart_des_2_agences'' =
           nan_sub (col_num r (''Ecart_'' @ ''Sud'')) (col_num r (''Ecart_'' @ ''Nord'')) \<and>
         col_num r ''Somme_ecarts'' =
           nan_add (col_num r (''Ecart_'' @ ''Nord'')) (col_num r (''Ecart_'' @ ''Sud'')) \<and>
         (col_num r (''Ecart_'' @ ''Nord'') = None \<or> col_num r (''Ecart_'' @ ''Sud'') = None \<longrightarrow>
            col_num r ''Ecart_des_2_agences'' = None \<and> col_num r ''Somme_ecarts'' = None)))"
proof -
  have ne: "''Nord'' \<noteq> ''Sud''" "''Nord'' \<noteq> ''des_2_agences''" "''Sud'' \<noteq> ''des_2_agences''"
    by simp_all
  have 1: "map (\<lambda>r. (col_num r ''Ecart_Nord'', col_num r ''Ecart_Sud'',
              col_num r ''Ecart_des_2_agences'', col_num r ''Somme_ecarts''))
     (projr (comparer_deux_agences argsort_stable ''Nord'' inv_pqrs ''Sud'' inv_xy2 )) = []"
    by code_simp
  have 2: "map (\<lambda>r. (col_num r ''Ecart_Nord'', col_num r ''Ecart_Sud'',
              col_num r ''Ecart_des_2_agences'', col_num r ''Somme_ecarts''))
     (projr (comparer_deux_agences argsort_stable ''Nord'' inv_pqrs ''Sud'' inv_pqrs0)) =
     [(Some (Fin (- 5)), Some (Fin 0), Some (Fin 5), Some (Fin (- 5))),
      (Some (Fin 3), Some (Fin 0), Some (Fin (- 3)), Some (Fin 3)),
      (Some (Fin (- 3)), Some (Fin 0), Some (Fin 3), Some (Fin (- 3))),
      (None, Some (Fin 0), None, None)]"
    by code_simp
  from argsort_stable_ok 1 2
    comparer_derived_columns [OF argsort_stable_ok ne, of inv_pqrs inv_pqrs0]
  show ?thesis by (intro conjI)
qed

subsection \<open>The page and its reports\<close>

lemma collecter_valides:
  "map fst (collecter saisies) = map (\<lambda>s. py_strip (fst s)) (filter agence_valide saisies)"
proof (induction saisies)
  case Nil
  then show ?case by simp
next
  case (Cons s saisies)
  obtain nom up where s: "s = (nom, up)" by (cases s)
  show ?case
    using Cons
    by (cases up; cases "charger_fichier (the up)")
       (auto simp: s agence_valide_def split: sum.splits)
qed

text \<open>
  C8. The agencies the page keeps are those with a name that is not blank and a file
  that loads. With fewer than two of them the button refuses and offers no report; with
  two or more it does not refuse.
\<close>

theorem bouton_refuse_below_two:
  "length (collecter saisies) = length (filter agence_valide saisies) \<and>
   (length (filter agence_valide saisies) < 2 \<longrightarrow>
      bouton_generer argsort (collecter saisies) = (Refus, [])) \<and>
   (2 \<le> length (filter agence_valide saisies) \<longrightarrow>
      fst (bouton_generer argsort (collecter saisies)) \<noteq> Refus)"
proof -
  have len: "length (collecter saisies) = length (filter agence_valide saisies)"
    using collecter_valides [of saisies] by (metis length_map)
  have "fst (bouton_generer argsort infos) \<noteq> Refus" if "2 \<le> length infos" for infos
    using that by (simp add: bouton_generer_def split: prod.splits option.splits)
  then show ?thesis
    using len by (simp add: bouton_generer_def)
qed

theorem bouton_refuse_below_two_witness:
  "length (filter agence_valide saisies_une) = 1 \<and>
   bouton_generer argsort_stable (collecter saisies_une) = (Refus, []) \<and>
   length (filter agence_valide saisies_deux) = 2 \<and>
   fst (bouton_generer argsort_stable (collecter saisies_deux)) \<noteq> Refus"
proof -
  have 1: "length (filter agence_valide saisies_une) = 1"
    by code_simp
  have 2: "length (filter agence_valide saisies_deux) = 2"
    by code_simp
  from 1 bouton_refuse_below_two [of saisies_une argsort_stable]
  have 3: "bouton_generer argsort_stable (collecter saisies_une) = (Refus, [])"
    by simp
  from 2 bouton_refuse_below_two [of saisies_deux argsort_stable]
  have 4: "fst (bouton_generer argsort_stable (collecter saisies_deux)) \<noteq> Refus"
    by simp
  from 1 2 3 4 show ?thesis by (intro conjI)
qed










end
